theory Spec2Isabelle
  imports Complex_Main
begin

section \<open>JavaScript values\<close>

text \<open>
  The functions verified here are TypeScript. They perform no arithmetic: numbers are only
  compared with zero, tested for truthiness and handed to the caller's increment function.
  A number is therefore modelled as a rational, extended by the two infinities and NaN;
  negative zero is identified with zero (both are falsy and both fail \<open>> 0\<close>).
\<close>

datatype jsnum = Fin rat | PosInf | NegInf | NaN

text \<open>
  A value of TypeScript type \<open>unknown\<close>, as a stored document or a property bag holds
  it: \<open>undefined\<close>, \<open>null\<close>, a boolean, a number, a string, an array or an object.
\<close>

datatype jsval =
    JUndefined
  | JNull
  | JBool bool
  | JNum jsnum
  | JStr string
  | JArr "jsval list"
  | JObj "(string \<times> jsval) list"

text \<open>ToBoolean: what \<open>!v\<close> and \<open>if (v)\<close> test.\<close>

fun truthy :: "jsval \<Rightarrow> bool" where
  "truthy JUndefined = False"
| "truthy JNull = False"
| "truthy (JBool b) = b"
| "truthy (JNum n) = (n \<noteq> Fin 0 \<and> n \<noteq> NaN)"
| "truthy (JStr s) = (s \<noteq> [])"
| "truthy (JArr xs) = True"
| "truthy (JObj kvs) = True"

text \<open>\<open>n > 0\<close> on a number.\<close>

fun positive :: "jsnum \<Rightarrow> bool" where
  "positive (Fin q) = (0 < q)"
| "positive PosInf = True"
| "positive NegInf = False"
| "positive NaN = False"

text \<open>
  A parameter of type \<open>T | null | undefined\<close>. An optional field \<open>f?: T\<close> is an
  \<open>option\<close>; reading it gives \<open>undefined\<close> when it is absent (\<open>present\<close>).
\<close>

datatype 'a nullable = Undefined | Null | Present 'a

fun present :: "'a option \<Rightarrow> 'a nullable" where
  "present None = Undefined"
| "present (Some x) = Present x"

text \<open>Truthiness of a \<open>string | null | undefined\<close>: only a non-empty string is truthy.\<close>

fun truthy_str :: "string nullable \<Rightarrow> bool" where
  "truthy_str (Present s) = (s \<noteq> [])"
| "truthy_str Undefined = False"
| "truthy_str Null = False"

text \<open>Truthiness of an object reference: only null and undefined are falsy.\<close>

fun truthy_obj :: "'a nullable \<Rightarrow> bool" where
  "truthy_obj (Present x) = True"
| "truthy_obj Undefined = False"
| "truthy_obj Null = False"

text \<open>
  Property access. \<open>obj.f\<close> throws a TypeError when \<open>obj\<close> is null or undefined;
  \<open>obj?.f\<close> gives \<open>undefined\<close> there instead.
\<close>

datatype js_error = TypeError

definition member :: "'a nullable \<Rightarrow> ('a \<Rightarrow> 'b) \<Rightarrow> js_error + 'b" where
  "member obj f = (case obj of Present x \<Rightarrow> Inr (f x) | Undefined \<Rightarrow> Inl TypeError | Null \<Rightarrow> Inl TypeError)"

definition opt_member :: "'a nullable \<Rightarrow> ('a \<Rightarrow> jsval) \<Rightarrow> jsval" where
  "opt_member obj f = (case obj of Present x \<Rightarrow> f x | Undefined \<Rightarrow> JUndefined | Null \<Rightarrow> JUndefined)"

text \<open>Sequencing of statements that may throw: the first exception ends the evaluation.\<close>

definition and_then :: "js_error + 'a \<Rightarrow> ('a \<Rightarrow> js_error + 'b) \<Rightarrow> js_error + 'b" where
  "and_then r k = (case r of Inl e \<Rightarrow> Inl e | Inr v \<Rightarrow> k v)"

section \<open>Text direction (video-artifacts.ts)\<close>

datatype TextDirection = Rtl | Ltr | Auto

text \<open>The codes of \<open>OutputLanguageSchema\<close>, the only enumerated language list of the repository.\<close>

definition OutputLanguageSchema :: "string list" where
  "OutputLanguageSchema =
     [''auto'', ''en'', ''es'', ''fr'', ''de'', ''pt'', ''zh'', ''ja'', ''ko'', ''ar'', ''he'',
      ''ru'', ''it'', ''nl'', ''pl'', ''tr'', ''vi'', ''th'', ''id'', ''hi'']"

definition RTL_LANGUAGES :: "string set" where
  "RTL_LANGUAGES = {''ar'', ''he''}"

definition getTextDirection :: "string nullable \<Rightarrow> TextDirection" where
  "getTextDirection language =
     (if \<not> truthy_str language \<or> language = Present ''auto'' then Auto
      else if (case language of Present l \<Rightarrow> l \<in> RTL_LANGUAGES | Undefined \<Rightarrow> False | Null \<Rightarrow> False) then Rtl
      else Ltr)"

section \<open>Session documents and translation cache (schemas.ts)\<close>

datatype TranslationStatus = Tr_ready | Tr_stale | Tr_in_progress | Tr_failed

record TranslationEntry =
  translatedContent :: jsval
  translatedAt :: string
  sourceRevision :: jsnum
  sourceFingerprint :: string
  status :: TranslationStatus
  model :: "string option"
  error :: "string option"

record ContentMetadata =
  output_language :: "string option"
  detected_language :: "string option"

text \<open>
  \<open>SessionContentDoc\<close>. The field \<open>content\<close> has type \<open>unknown\<close> and is optional: an
  absent field reads as \<open>undefined\<close>, so it is a \<open>jsval\<close> with \<open>JUndefined\<close> for absence.
  The field \<open>translations\<close> is written with a prime, the plain name being reserved.
\<close>

record SessionContentDoc =
  content :: jsval
  content_metadata :: "ContentMetadata option"
  originalLanguage :: "string option"
  contentRevision :: "jsnum option"
  contentFingerprint :: "string option"
  translations' :: "(string \<rightharpoonup> TranslationEntry) option"
  updated_at :: "string option"

datatype FreshnessStatus = Fr_canonical | Fr_ready | Fr_stale | Fr_missing

record ResolvedContentResult =
  contentToUse :: jsval
  dir :: TextDirection
  languageUsed :: string
  freshnessStatus :: FreshnessStatus

subsection \<open>Canonical content\<close>

definition getCanonicalContent :: "SessionContentDoc nullable \<Rightarrow> js_error + jsval" where
  "getCanonicalContent session =
     (if \<not> truthy_obj session then Inr JUndefined
      else member session content)"

subsection \<open>Resolved content\<close>

text \<open>\<open>a ?? b\<close>, with a right operand that may itself be null or undefined.\<close>

fun coalesce :: "'a nullable \<Rightarrow> 'a nullable \<Rightarrow> 'a nullable" where
  "coalesce (Present x) b = Present x"
| "coalesce Undefined b = b"
| "coalesce Null b = b"

text \<open>\<open>a ?? d\<close>, with a right operand that is a value.\<close>

fun or_else :: "'a nullable \<Rightarrow> 'a \<Rightarrow> 'a" where
  "or_else (Present x) d = x"
| "or_else Undefined d = d"
| "or_else Null d = d"

definition getEffectiveOriginalLanguage :: "ContentMetadata option \<Rightarrow> js_error + string option" where
  "getEffectiveOriginalLanguage metadata =
     (if \<not> truthy_obj (present metadata) then Inr None
      else
        and_then (member (present metadata) output_language) (\<lambda>out.
        if out = Some ''auto'' then member (present metadata) detected_language
        else member (present metadata) output_language))"

text \<open>
  The resolver returns \<open>Inr None\<close> for \<open>undefined\<close>, \<open>Inr (Some r)\<close> for a result and
  \<open>Inl e\<close> where the evaluation would throw \<open>e\<close>. After the guard \<open>!lang || ...\<close>
  TypeScript narrows \<open>lang\<close> to \<open>string\<close>; the model does the same by a case
  distinction on \<open>lang\<close>, whose falsy branches are those of the guard.
  The translation cache is a map from language code to entry. A key that the JavaScript
  object only inherits reads as a value without \<open>status\<close>, which ends in the same
  fallback record as an absent entry.
\<close>

definition getResolvedContent ::
  "SessionContentDoc nullable \<Rightarrow> string nullable \<Rightarrow> js_error + ResolvedContentResult option" where
  "getResolvedContent session selectedLang =
     (if \<not> truthy (opt_member session content) then Inr None
      else
        and_then (member session content) (\<lambda>canonical.
        and_then (member session originalLanguage) (\<lambda>declared.
        and_then (case declared of
                    Some l \<Rightarrow> Inr (Some l)
                  | None \<Rightarrow> and_then (member session content_metadata) getEffectiveOriginalLanguage)
          (\<lambda>originalLang.
        let lang = (if truthy_str selectedLang \<and> selectedLang \<noteq> Present ''auto''
                    then selectedLang else present originalLang);
            dir = getTextDirection (coalesce lang Undefined);
            original = \<lparr>contentToUse = canonical, dir = dir,
                        languageUsed = or_else (coalesce (present originalLang) lang) ''en'',
                        freshnessStatus = Fr_canonical\<rparr>;
            fallback = \<lparr>contentToUse = canonical, dir = dir,
                        languageUsed = or_else (present originalLang) ''en'',
                        freshnessStatus = Fr_missing\<rparr>
        in
        case lang of
          Undefined \<Rightarrow> Inr (Some original)
        | Null \<Rightarrow> Inr (Some original)
        | Present l \<Rightarrow>
            if l = [] \<or> lang = present originalLang then Inr (Some original)
            else
              and_then (member session translations') (\<lambda>cache.
              let translations = or_else (present cache) Map.empty;
                  entry = translations l
              in
              if \<not> truthy_obj (present entry) then Inr (Some fallback)
              else
                and_then (member (present entry) status) (\<lambda>st.
                if st = Tr_ready then
                  and_then (member (present entry) translatedContent) (\<lambda>translated.
                  Inr (Some \<lparr>contentToUse = translated, dir = dir, languageUsed = l,
                              freshnessStatus = Fr_ready\<rparr>))
                else if st = Tr_stale then
                  and_then (member (present entry) translatedContent) (\<lambda>translated.
                  Inr (Some \<lparr>contentToUse = translated, dir = dir, languageUsed = l,
                              freshnessStatus = Fr_stale\<rparr>))
                else Inr (Some fallback)))))))"

text \<open>
  The effective original language in the words of the specification: the declared
  \<open>originalLanguage\<close> if present; else the detected language when the output language of
  the metadata is \<open>auto\<close>; else the output language.
\<close>

definition effectiveOriginalLanguage :: "SessionContentDoc \<Rightarrow> string option" where
  "effectiveOriginalLanguage s =
     (case originalLanguage s of
        Some l \<Rightarrow> Some l
      | None \<Rightarrow>
          (case content_metadata s of
             None \<Rightarrow> None
           | Some m \<Rightarrow> if output_language m = Some ''auto'' then detected_language m
                       else output_language m))"

text \<open>
  The effective requested language in the words of the specification: the selector if it is
  present and not \<open>auto\<close>, else the effective original language.
\<close>

definition effectiveRequestedLanguage :: "SessionContentDoc \<Rightarrow> string nullable \<Rightarrow> string option" where
  "effectiveRequestedLanguage s selectedLang =
     (case selectedLang of
        Present l \<Rightarrow> if l \<noteq> [] \<and> l \<noteq> ''auto'' then Some l else effectiveOriginalLanguage s
      | Undefined \<Rightarrow> effectiveOriginalLanguage s
      | Null \<Rightarrow> effectiveOriginalLanguage s)"

text \<open>The translation entry of a session for a language, if the cache has one.\<close>

definition translationEntry :: "SessionContentDoc \<Rightarrow> string \<Rightarrow> TranslationEntry option" where
  "translationEntry s l = (case translations' s of None \<Rightarrow> None | Some cache \<Rightarrow> cache l)"

section \<open>Usage counters (usage-logging/server.ts)\<close>

text \<open>
  \<open>properties?.key\<close> on a property bag of type
  \<open>Record<string, unknown> | undefined | null\<close>: a missing key reads as \<open>undefined\<close>.
\<close>

definition property :: "(string \<rightharpoonup> jsval) nullable \<Rightarrow> string \<Rightarrow> jsval" where
  "property properties key =
     opt_member properties (\<lambda>bag. case bag key of Some v \<Rightarrow> v | None \<Rightarrow> JUndefined)"

text \<open>
  \<open>getCounterUpdates\<close>. The action is a string at run time; the \<open>switch\<close> has no default
  branch. The local object \<open>updates\<close> is a map from field name to the value that the
  caller's \<open>increment\<close> makes; every assignment to it is an update of the map. All
  property reads go through \<open>?.\<close>, so no statement of the function can throw.
\<close>

definition getCounterUpdates ::
  "string \<Rightarrow> (string \<rightharpoonup> jsval) nullable \<Rightarrow> (jsnum \<Rightarrow> 'u) \<Rightarrow> (string \<rightharpoonup> 'u)" where
  "getCounterUpdates action properties increment =
     (let updates = Map.empty in
      if action = ''session'' then
        (let updates = updates(''sessions_started'' \<mapsto> increment (Fin 1));
             recordingSource = property properties ''recording_source'';
             updates =
               (if recordingSource = JStr ''screen'' then
                  updates(''sessions_screen'' \<mapsto> increment (Fin 1))
                else if recordingSource = JStr ''camera'' then
                  updates(''sessions_camera'' \<mapsto> increment (Fin 1))
                else updates);
             outputType = property properties ''output_type'';
             updates =
               (if outputType = JStr ''workflow'' then
                  updates(''sessions_workflow'' \<mapsto> increment (Fin 1))
                else if outputType = JStr ''teach_ai'' then
                  updates(''sessions_teach_ai'' \<mapsto> increment (Fin 1))
                else updates);
             updates =
               (if \<not> truthy recordingSource \<and> \<not> truthy outputType then
                  (let legacySessionType = property properties ''session_type'' in
                   if legacySessionType = JStr ''screen'' then
                     updates(''sessions_screen'' \<mapsto> increment (Fin 1),
                             ''sessions_workflow'' \<mapsto> increment (Fin 1))
                   else if legacySessionType = JStr ''camera'' then
                     updates(''sessions_camera'' \<mapsto> increment (Fin 1),
                             ''sessions_workflow'' \<mapsto> increment (Fin 1))
                   else if legacySessionType = JStr ''teach_ai'' then
                     updates(''sessions_screen'' \<mapsto> increment (Fin 1),
                             ''sessions_teach_ai'' \<mapsto> increment (Fin 1))
                   else updates)
                else updates)
         in
         if truthy recordingSource \<and> \<not> truthy outputType then
           updates(''sessions_workflow'' \<mapsto> increment (Fin 1))
         else if \<not> truthy recordingSource \<and> truthy outputType then
           updates(''sessions_screen'' \<mapsto> increment (Fin 1))
         else updates)
      else if action = ''session_complete'' then
        (let updates = updates(''sessions_completed'' \<mapsto> increment (Fin 1));
             durationMs = property properties ''session_duration_ms''
         in
         case durationMs of
           JNum n \<Rightarrow>
             if positive n then updates(''total_session_duration_ms'' \<mapsto> increment n)
             else updates
         | _ \<Rightarrow> updates)
      else if action = ''workflow_edit'' then
        updates(''workflow_edits'' \<mapsto> increment (Fin 1))
      else if action = ''publish'' then
        updates(''publishes'' \<mapsto> increment (Fin 1))
      else if action = ''export'' then
        updates(''exports'' \<mapsto> increment (Fin 1))
      else if action = ''chatbot_message'' then
        updates(''chatbot_messages'' \<mapsto> increment (Fin 1))
      else if action = ''enrich_click'' then
        updates(''enrich_clicks'' \<mapsto> increment (Fin 1))
      else if action = ''daily_active_user'' then
        updates(''unique_users'' \<mapsto> increment (Fin 1))
      else if action = ''mcp_context_list'' then
        updates(''mcp_context_list'' \<mapsto> increment (Fin 1), ''mcp_total'' \<mapsto> increment (Fin 1))
      else if action = ''mcp_context_get'' then
        updates(''mcp_context_get'' \<mapsto> increment (Fin 1), ''mcp_total'' \<mapsto> increment (Fin 1))
      else if action = ''mcp_context_search'' then
        updates(''mcp_context_search'' \<mapsto> increment (Fin 1), ''mcp_total'' \<mapsto> increment (Fin 1))
      else if action = ''mcp_context_modify'' then
        updates(''mcp_context_modify'' \<mapsto> increment (Fin 1), ''mcp_total'' \<mapsto> increment (Fin 1))
      else if action = ''video_forge_analysis'' \<or> action = ''video_forge_augmentation'' then
        (let inputTokens = property properties ''input_tokens'';
             outputTokens = property properties ''output_tokens'';
             costUsd = property properties ''cost_usd'';
             updates =
               (case inputTokens of
                  JNum n \<Rightarrow>
                    if positive n then updates(''video_forge_input_tokens'' \<mapsto> increment n)
                    else updates
                | _ \<Rightarrow> updates);
             updates =
               (case outputTokens of
                  JNum n \<Rightarrow>
                    if positive n then updates(''video_forge_output_tokens'' \<mapsto> increment n)
                    else updates
                | _ \<Rightarrow> updates)
         in
         case costUsd of
           JNum n \<Rightarrow>
             if positive n then updates(''video_forge_cost_usd'' \<mapsto> increment n)
             else updates
         | _ \<Rightarrow> updates)
      else updates)"

text \<open>The case labels of the \<open>switch\<close> of \<open>getCounterUpdates\<close>.\<close>

definition handled_actions :: "string list" where
  "handled_actions =
     [''session'', ''session_complete'', ''workflow_edit'', ''publish'', ''export'',
      ''chatbot_message'', ''enrich_click'', ''daily_active_user'',
      ''mcp_context_list'', ''mcp_context_get'', ''mcp_context_search'', ''mcp_context_modify'',
      ''video_forge_analysis'', ''video_forge_augmentation'']"

text \<open>
  The increment function of the repository's tests, \<open>(n) => ({ _increment: n })\<close>: it
  records the amount.
\<close>

datatype increment_value = Increment jsnum

definition mockIncrement :: "jsnum \<Rightarrow> increment_value" where
  "mockIncrement n = Increment n"

text \<open>The amount by which a returned mapping increments a counter field: zero for a field it does not name.\<close>

definition increment_of :: "(string \<rightharpoonup> increment_value) \<Rightarrow> string \<Rightarrow> rat" where
  "increment_of updates field =
     (case updates field of
        Some (Increment (Fin q)) \<Rightarrow> q
      | _ \<Rightarrow> 0)"

section \<open>Example documents\<close>

text \<open>
  The session of the specification's end-to-end example: English content with one cached
  translation, Spanish, whose status is the parameter.
\<close>

definition guide :: jsval where
  "guide = JObj [(''title'', JStr ''Guide'')]"

definition guia :: jsval where
  "guia = JObj [(''title'', JStr ''Guia'')]"

definition example_entry :: "TranslationStatus \<Rightarrow> TranslationEntry" where
  "example_entry st =
     \<lparr>translatedContent = guia, translatedAt = ''2024-01-01T00:00:00Z'', sourceRevision = Fin 1,
      sourceFingerprint = ''abc'', status = st, model = None, error = None\<rparr>"

definition example_session :: "TranslationStatus \<Rightarrow> SessionContentDoc" where
  "example_session st =
     \<lparr>content = guide,
      content_metadata = Some \<lparr>output_language = Some ''en'', detected_language = None\<rparr>,
      originalLanguage = None, contentRevision = None, contentFingerprint = None,
      translations' = Some [''es'' \<mapsto> example_entry st], updated_at = None\<rparr>"

text \<open>A session whose output language is \<open>auto\<close> and whose detected language is French.\<close>

definition auto_session :: SessionContentDoc where
  "auto_session =
     \<lparr>content = guide,
      content_metadata = Some \<lparr>output_language = Some ''auto'', detected_language = Some ''fr''\<rparr>,
      originalLanguage = None, contentRevision = None, contentFingerprint = None,
      translations' = None, updated_at = None\<rparr>"

section \<open>Properties of the text direction\<close>

lemma RTL_LANGUAGES_not_sentinel: "[] \<notin> RTL_LANGUAGES" "''auto'' \<notin> RTL_LANGUAGES"
  by (simp_all add: RTL_LANGUAGES_def)

text \<open>
  Claim C5, as the code has it. \<open>getTextDirection\<close> gives \<open>auto\<close> exactly for an absent
  value (undefined, null, the empty string) and for the sentinel \<open>auto\<close>; it gives \<open>rtl\<close>
  exactly for the members of the static right-to-left set, which holds \<open>ar\<close> and \<open>he\<close>; and
  it gives \<open>ltr\<close> for every other language code, whether or not any table of the repository
  knows the code. \<open>en\<close>, \<open>es\<close> and \<open>fr\<close> give \<open>ltr\<close>.
\<close>

theorem getTextDirection_cases:
  "(getTextDirection v = Auto) =
     (v = Undefined \<or> v = Null \<or> v = Present [] \<or> v = Present ''auto'')
   \<and> (getTextDirection v = Rtl) = (\<exists>l. v = Present l \<and> l \<in> RTL_LANGUAGES)
   \<and> (getTextDirection (Present l) = Ltr) = (l \<noteq> [] \<and> l \<noteq> ''auto'' \<and> l \<notin> RTL_LANGUAGES)
   \<and> ''ar'' \<in> RTL_LANGUAGES \<and> ''he'' \<in> RTL_LANGUAGES
   \<and> getTextDirection (Present ''en'') = Ltr \<and> getTextDirection (Present ''es'') = Ltr
   \<and> getTextDirection (Present ''fr'') = Ltr"
proof -
  have auto_iff: "(getTextDirection v = Auto) =
     (v = Undefined \<or> v = Null \<or> v = Present [] \<or> v = Present ''auto'')"
    by (cases v) (auto simp: getTextDirection_def)
  have rtl_iff: "(getTextDirection v = Rtl) = (\<exists>l. v = Present l \<and> l \<in> RTL_LANGUAGES)"
    using RTL_LANGUAGES_not_sentinel by (cases v) (auto simp: getTextDirection_def)
  have ltr_iff:
    "(getTextDirection (Present l) = Ltr) = (l \<noteq> [] \<and> l \<noteq> ''auto'' \<and> l \<notin> RTL_LANGUAGES)"
    by (auto simp: getTextDirection_def)
  have members: "''ar'' \<in> RTL_LANGUAGES \<and> ''he'' \<in> RTL_LANGUAGES"
    by (simp add: RTL_LANGUAGES_def)
  have ltr: "getTextDirection (Present ''en'') = Ltr \<and> getTextDirection (Present ''es'') = Ltr
     \<and> getTextDirection (Present ''fr'') = Ltr"
    by (simp add: getTextDirection_def RTL_LANGUAGES_def)
  from auto_iff rtl_iff ltr_iff members ltr show ?thesis
    by blast
qed

text \<open>Hebrew, German, the sentinel and the absent value.\<close>

theorem getTextDirection_cases_witness:
  "getTextDirection (Present ''he'') = Rtl \<and> getTextDirection (Present ''de'') = Ltr
   \<and> getTextDirection (Present ''auto'') = Auto \<and> getTextDirection Undefined = Auto"
  using getTextDirection_cases [of "Present ''he''" "''de''"]
    getTextDirection_cases [of "Present ''auto''" "''de''"]
    getTextDirection_cases [of Undefined "''de''"]
  by (simp add: RTL_LANGUAGES_def)

text \<open>
  Claim C5 as stated also says that a language code in no known set resolves to \<open>auto\<close>.
  Swedish, \<open>sv\<close>, is a language code that is neither in the right-to-left set nor in
  \<open>OutputLanguageSchema\<close>, and its direction is \<open>ltr\<close>, not \<open>auto\<close>.
\<close>

theorem getTextDirection_unknown_code_counterexample:
  "''sv'' \<notin> RTL_LANGUAGES \<and> ''sv'' \<notin> set OutputLanguageSchema
     \<and> getTextDirection (Present ''sv'') = Ltr \<and> getTextDirection (Present ''sv'') \<noteq> Auto"
  by (simp add: getTextDirection_def RTL_LANGUAGES_def OutputLanguageSchema_def)

section \<open>Properties of the canonical accessor\<close>

text \<open>
  Claim C6. \<open>getCanonicalContent\<close> returns the absent sentinel \<open>undefined\<close> for an absent
  session (undefined or null), and the \<open>content\<close> field verbatim for a present one: so
  \<open>undefined\<close> again when the session has no content. The result does not depend on the
  \<open>translations\<close> field. The function returns a value only; the document is not changed.
\<close>

theorem getCanonicalContent_verbatim:
  "getCanonicalContent Undefined = Inr JUndefined
   \<and> getCanonicalContent Null = Inr JUndefined
   \<and> getCanonicalContent (Present s) = Inr (content s)
   \<and> getCanonicalContent (Present (s\<lparr>content := JUndefined\<rparr>)) = Inr JUndefined
   \<and> getCanonicalContent (Present (s\<lparr>translations' := t\<rparr>)) = getCanonicalContent (Present s)"
  by (simp add: getCanonicalContent_def member_def)

section \<open>Properties of the resolver\<close>

subsection \<open>The resolver without its error channel\<close>

lemma present_simps:
  "present x \<noteq> Null" "Null \<noteq> present x"
  "(present x = Present y) = (x = Some y)" "(Present y = present x) = (x = Some y)"
  "(present x = Undefined) = (x = None)" "(Undefined = present x) = (x = None)"
  by (cases x; auto)+

lemma getEffectiveOriginalLanguage_total:
  "getEffectiveOriginalLanguage metadata =
     Inr (case metadata of None \<Rightarrow> None
          | Some m \<Rightarrow> if output_language m = Some ''auto'' then detected_language m
                      else output_language m)"
  by (cases metadata) (simp_all add: getEffectiveOriginalLanguage_def member_def and_then_def)

text \<open>The original language that the resolver computes is the one the specification describes.\<close>

lemma originalLang_step:
  "(case originalLanguage s of
      Some l \<Rightarrow> Inr (Some l)
    | None \<Rightarrow> and_then (member (Present s) content_metadata) getEffectiveOriginalLanguage)
   = Inr (effectiveOriginalLanguage s)"
  by (simp add: effectiveOriginalLanguage_def member_def and_then_def
        getEffectiveOriginalLanguage_total split: option.splits)

lemma getResolvedContent_absent_session:
  "getResolvedContent Undefined selectedLang = Inr None"
  "getResolvedContent Null selectedLang = Inr None"
  by (simp_all add: getResolvedContent_def opt_member_def)

text \<open>On a present session every property access succeeds, and the resolver is a decision tree.\<close>

lemma getResolvedContent_Present:
  "getResolvedContent (Present s) selectedLang =
     (if \<not> truthy (content s) then Inr None
      else
        let originalLang = effectiveOriginalLanguage s;
            lang = (if truthy_str selectedLang \<and> selectedLang \<noteq> Present ''auto''
                    then selectedLang else present originalLang);
            d = getTextDirection (coalesce lang Undefined);
            original = \<lparr>contentToUse = content s, dir = d,
                        languageUsed = or_else (coalesce (present originalLang) lang) ''en'',
                        freshnessStatus = Fr_canonical\<rparr>;
            fallback = \<lparr>contentToUse = content s, dir = d,
                        languageUsed = or_else (present originalLang) ''en'',
                        freshnessStatus = Fr_missing\<rparr>
        in
        case lang of
          Undefined \<Rightarrow> Inr (Some original)
        | Null \<Rightarrow> Inr (Some original)
        | Present l \<Rightarrow>
            if l = [] \<or> lang = present originalLang then Inr (Some original)
            else
              (case translationEntry s l of
                 None \<Rightarrow> Inr (Some fallback)
               | Some e \<Rightarrow>
                   if status e = Tr_ready then
                     Inr (Some \<lparr>contentToUse = translatedContent e, dir = d, languageUsed = l,
                                 freshnessStatus = Fr_ready\<rparr>)
                   else if status e = Tr_stale then
                     Inr (Some \<lparr>contentToUse = translatedContent e, dir = d, languageUsed = l,
                                 freshnessStatus = Fr_stale\<rparr>)
                   else Inr (Some fallback)))"
  unfolding getResolvedContent_def
  by (cases selectedLang; cases "effectiveOriginalLanguage s"; cases "translations' s")
     (simp_all add: opt_member_def member_def and_then_def originalLang_step translationEntry_def
        Let_def present_simps split: option.splits)

subsection \<open>The example documents\<close>

lemma example_session_language:
  "effectiveOriginalLanguage (example_session st) = Some ''en''"
  "effectiveOriginalLanguage auto_session = Some ''fr''"
  by (simp_all add: effectiveOriginalLanguage_def example_session_def auto_session_def)

lemma example_session_entry:
  "translationEntry (example_session st) ''es'' = Some (example_entry st)"
  "translationEntry (example_session st) ''de'' = None"
  "translationEntry (example_session st) ''ar'' = None"
  by (simp_all add: translationEntry_def example_session_def)

lemma example_session_content:
  "content (example_session st) = guide" "content auto_session = guide" "truthy guide"
  by (simp_all add: example_session_def auto_session_def guide_def)

subsection \<open>Case A: the requested language is the original\<close>

text \<open>
  Claim C2. Let the session have canonical content (a truthy \<open>content\<close>). When the selector
  is absent (undefined, null or the empty string), the sentinel \<open>auto\<close>, or equal to the
  effective original language, \<open>getResolvedContent\<close> returns the canonical content with
  freshness \<open>canonical\<close>. The language used is the effective original language, else the
  effective requested language, else \<open>en\<close>. Here the requested language falls back to
  the original one, so the language used is \<open>en\<close> whenever the original language cannot
  be determined.
\<close>

theorem getResolvedContent_original:
  assumes "truthy (content s)"
    and "selectedLang = Undefined \<or> selectedLang = Null \<or> selectedLang = Present []
           \<or> selectedLang = Present ''auto''
           \<or> selectedLang = present (effectiveOriginalLanguage s)"
  shows "\<exists>r. getResolvedContent (Present s) selectedLang = Inr (Some r)
           \<and> contentToUse r = content s
           \<and> freshnessStatus r = Fr_canonical
           \<and> languageUsed r =
               (case effectiveOriginalLanguage s of
                  Some l \<Rightarrow> l
                | None \<Rightarrow> (case effectiveRequestedLanguage s selectedLang of
                             Some l \<Rightarrow> l
                           | None \<Rightarrow> ''en''))
           \<and> languageUsed r = (case effectiveOriginalLanguage s of Some l \<Rightarrow> l | None \<Rightarrow> ''en'')"
proof (cases "effectiveOriginalLanguage s")
  case None
  with assms show ?thesis
    by (auto simp: getResolvedContent_Present effectiveRequestedLanguage_def Let_def)
next
  case (Some l)
  with assms show ?thesis
    by (auto simp: getResolvedContent_Present effectiveRequestedLanguage_def Let_def)
qed

text \<open>
  The example session, asked for its own language \<open>en\<close>; and the session with output
  language \<open>auto\<close> and detected language \<open>fr\<close>, asked for \<open>auto\<close>.
\<close>

theorem getResolvedContent_original_witness:
  "(\<exists>r. getResolvedContent (Present (example_session Tr_ready)) (Present ''en'') = Inr (Some r)
        \<and> contentToUse r = guide \<and> freshnessStatus r = Fr_canonical \<and> languageUsed r = ''en'')
   \<and> (\<exists>r. getResolvedContent (Present auto_session) (Present ''auto'') = Inr (Some r)
        \<and> contentToUse r = guide \<and> freshnessStatus r = Fr_canonical \<and> languageUsed r = ''fr'')"
  using getResolvedContent_original [of "example_session Tr_ready" "Present ''en''"]
    getResolvedContent_original [of auto_session "Present ''auto''"]
  by (simp add: example_session_language example_session_content)

subsection \<open>Case B: a usable translation\<close>

text \<open>
  Claim C3. Let the session have canonical content and let \<open>L\<close> be a requested language
  code (not empty, not the sentinel \<open>auto\<close>) that differs from the effective original
  language. If the cache has an entry for \<open>L\<close> with status \<open>ready\<close>, the resolver returns
  the entry's translated content with freshness \<open>ready\<close> and language used \<open>L\<close>; with
  status \<open>stale\<close> it returns the entry's translated content as well, with freshness
  \<open>stale\<close> and language used \<open>L\<close>.
\<close>

theorem getResolvedContent_translation:
  assumes "truthy (content s)"
    and "L \<noteq> []" and "L \<noteq> ''auto''"
    and "effectiveOriginalLanguage s \<noteq> Some L"
    and "translationEntry s L = Some e"
  shows "(status e = Tr_ready \<longrightarrow>
            getResolvedContent (Present s) (Present L) =
              Inr (Some \<lparr>contentToUse = translatedContent e, dir = getTextDirection (Present L),
                          languageUsed = L, freshnessStatus = Fr_ready\<rparr>))
       \<and> (status e = Tr_stale \<longrightarrow>
            getResolvedContent (Present s) (Present L) =
              Inr (Some \<lparr>contentToUse = translatedContent e, dir = getTextDirection (Present L),
                          languageUsed = L, freshnessStatus = Fr_stale\<rparr>))"
  using assms by (simp add: getResolvedContent_Present present_simps)

text \<open>The example session asked for Spanish, with a ready and with a stale entry.\<close>

theorem getResolvedContent_translation_witness:
  "getResolvedContent (Present (example_session Tr_ready)) (Present ''es'') =
     Inr (Some \<lparr>contentToUse = guia, dir = Ltr, languageUsed = ''es'', freshnessStatus = Fr_ready\<rparr>)
   \<and> getResolvedContent (Present (example_session Tr_stale)) (Present ''es'') =
     Inr (Some \<lparr>contentToUse = guia, dir = Ltr, languageUsed = ''es'', freshnessStatus = Fr_stale\<rparr>)"
  using getResolvedContent_translation
          [of "example_session Tr_ready" "''es''" "example_entry Tr_ready"]
    getResolvedContent_translation
          [of "example_session Tr_stale" "''es''" "example_entry Tr_stale"]
  by (simp add: example_session_language example_session_content example_session_entry
        example_entry_def getTextDirection_def RTL_LANGUAGES_def)

subsection \<open>Case C and the unusable translation: fallback to canonical content\<close>

text \<open>
  Claim C4. Let the session have canonical content and let \<open>L\<close> be a requested language
  code (not empty, not the sentinel \<open>auto\<close>) that differs from the effective original
  language. If the cache has no entry for \<open>L\<close>, or its entry has status \<open>in_progress\<close>
  or \<open>failed\<close>, the resolver returns the canonical content with freshness \<open>missing\<close>
  and the effective original language as the language used, \<open>en\<close> if there is none. The
  result is one record in all three cases, so \<open>in_progress\<close> and \<open>failed\<close> give
  identical output.
\<close>

theorem getResolvedContent_missing:
  assumes "truthy (content s)"
    and "L \<noteq> []" and "L \<noteq> ''auto''"
    and "effectiveOriginalLanguage s \<noteq> Some L"
    and "translationEntry s L = None
           \<or> (\<exists>e. translationEntry s L = Some e
                  \<and> (status e = Tr_in_progress \<or> status e = Tr_failed))"
  shows "getResolvedContent (Present s) (Present L) =
           Inr (Some \<lparr>contentToUse = content s, dir = getTextDirection (Present L),
                       languageUsed = (case effectiveOriginalLanguage s of
                                         Some l \<Rightarrow> l | None \<Rightarrow> ''en''),
                       freshnessStatus = Fr_missing\<rparr>)"
  using assms
  by (cases "effectiveOriginalLanguage s") (auto simp: getResolvedContent_Present present_simps)

text \<open>
  The example session asked for German, which has no entry, and for Spanish while its entry
  is in progress and after it has failed.
\<close>

theorem getResolvedContent_missing_witness:
  "getResolvedContent (Present (example_session Tr_ready)) (Present ''de'') =
     Inr (Some \<lparr>contentToUse = guide, dir = Ltr, languageUsed = ''en'', freshnessStatus = Fr_missing\<rparr>)
   \<and> getResolvedContent (Present (example_session Tr_in_progress)) (Present ''es'') =
     Inr (Some \<lparr>contentToUse = guide, dir = Ltr, languageUsed = ''en'', freshnessStatus = Fr_missing\<rparr>)
   \<and> getResolvedContent (Present (example_session Tr_failed)) (Present ''es'') =
     Inr (Some \<lparr>contentToUse = guide, dir = Ltr, languageUsed = ''en'', freshnessStatus = Fr_missing\<rparr>)"
  using getResolvedContent_missing [of "example_session Tr_ready" "''de''"]
    getResolvedContent_missing [of "example_session Tr_in_progress" "''es''"]
    getResolvedContent_missing [of "example_session Tr_failed" "''es''"]
  by (simp add: example_session_language example_session_content example_session_entry
        example_entry_def getTextDirection_def RTL_LANGUAGES_def)

subsection \<open>Absence is a result, not an exception\<close>

text \<open>
  Claim C7. For every session argument (undefined, null or a document with any of its
  fields absent) and every selector, \<open>getResolvedContent\<close> returns: no property access of
  its evaluation throws. The result is the absent result \<open>undefined\<close> exactly when the
  session is absent or its content is falsy, and a result record otherwise.
\<close>

theorem getResolvedContent_total:
  "\<exists>r. getResolvedContent session selectedLang = Inr r
        \<and> (r = None) = (\<not> truthy (opt_member session content))"
proof (cases session)
  case (Present s)
  then show ?thesis
    by (auto simp: getResolvedContent_Present opt_member_def Let_def
          split: nullable.splits option.splits)
qed (simp_all add: getResolvedContent_absent_session opt_member_def)

subsection \<open>Falsy content\<close>

text \<open>
  Claim C9. For a session whose \<open>content\<close> is falsy but not absent (the empty string,
  zero, false), \<open>getResolvedContent\<close> returns the absent result for every selector, while
  \<open>getCanonicalContent\<close> returns that content value, which is not \<open>undefined\<close>.
\<close>

theorem getResolvedContent_falsy_content:
  assumes "\<not> truthy (content s)" and "content s \<noteq> JUndefined"
  shows "getResolvedContent (Present s) selectedLang = Inr None
       \<and> getCanonicalContent (Present s) = Inr (content s)
       \<and> getCanonicalContent (Present s) \<noteq> Inr JUndefined"
  using assms by (simp add: getResolvedContent_Present getCanonicalContent_def member_def)

text \<open>The example session with its content replaced by the empty string, by zero and by false.\<close>

theorem getResolvedContent_falsy_content_witness:
  "getResolvedContent (Present ((example_session Tr_ready)\<lparr>content := JStr []\<rparr>)) (Present ''es'')
     = Inr None
   \<and> getCanonicalContent (Present ((example_session Tr_ready)\<lparr>content := JStr []\<rparr>))
     = Inr (JStr [])
   \<and> getResolvedContent (Present ((example_session Tr_ready)\<lparr>content := JNum (Fin 0)\<rparr>)) Undefined
     = Inr None
   \<and> getCanonicalContent (Present ((example_session Tr_ready)\<lparr>content := JNum (Fin 0)\<rparr>))
     = Inr (JNum (Fin 0))
   \<and> getResolvedContent (Present ((example_session Tr_ready)\<lparr>content := JBool False\<rparr>))
       (Present ''auto'')
     = Inr None
   \<and> getCanonicalContent (Present ((example_session Tr_ready)\<lparr>content := JBool False\<rparr>))
     = Inr (JBool False)"
  using getResolvedContent_falsy_content
          [of "(example_session Tr_ready)\<lparr>content := JStr []\<rparr>" "Present ''es''"]
    getResolvedContent_falsy_content
          [of "(example_session Tr_ready)\<lparr>content := JNum (Fin 0)\<rparr>" Undefined]
    getResolvedContent_falsy_content
          [of "(example_session Tr_ready)\<lparr>content := JBool False\<rparr>" "Present ''auto''"]
  by simp

subsection \<open>The direction of a fallback\<close>

text \<open>
  Claim C10. Whenever \<open>getResolvedContent\<close> returns a result with freshness \<open>missing\<close>,
  the selector is a language code \<open>L\<close>, which is the effective requested language; the
  content is the canonical content; the language used is the effective original language
  (\<open>en\<close> if there is none); and the direction is that of \<open>L\<close>, not that of the language
  used.
\<close>

theorem getResolvedContent_missing_dir:
  assumes "getResolvedContent session selectedLang = Inr (Some r)"
    and "freshnessStatus r = Fr_missing"
  shows "\<exists>s L. session = Present s \<and> selectedLang = Present L
           \<and> effectiveRequestedLanguage s selectedLang = Some L
           \<and> contentToUse r = content s
           \<and> languageUsed r = (case effectiveOriginalLanguage s of Some l \<Rightarrow> l | None \<Rightarrow> ''en'')
           \<and> dir r = getTextDirection (Present L)"
proof (cases session)
  case (Present s)
  with assms show ?thesis
    by (cases "effectiveOriginalLanguage s"; cases selectedLang)
       (auto simp: getResolvedContent_Present effectiveRequestedLanguage_def Let_def present_simps
          split: if_splits option.splits)
qed (use assms in \<open>simp_all add: getResolvedContent_absent_session\<close>)

text \<open>
  The example session, whose original language is \<open>en\<close>, asked for Arabic, for which it
  has no entry: canonical content, language used \<open>en\<close>, direction \<open>rtl\<close>.
\<close>

theorem getResolvedContent_missing_dir_witness:
  "getResolvedContent (Present (example_session Tr_ready)) (Present ''ar'') =
     Inr (Some \<lparr>contentToUse = guide, dir = Rtl, languageUsed = ''en'', freshnessStatus = Fr_missing\<rparr>)
   \<and> getTextDirection (Present ''ar'') = Rtl
   \<and> getTextDirection (Present ''en'') = Ltr"
proof -
  let ?r = "\<lparr>contentToUse = guide, dir = Rtl, languageUsed = ''en'', freshnessStatus = Fr_missing\<rparr>"
  have run: "getResolvedContent (Present (example_session Tr_ready)) (Present ''ar'') = Inr (Some ?r)"
    by (simp add: getResolvedContent_Present example_session_language example_session_content
          example_session_entry getTextDirection_def RTL_LANGUAGES_def)
  have missing: "freshnessStatus ?r = Fr_missing"
    by simp
  from getResolvedContent_missing_dir [OF run missing]
  have "dir ?r = getTextDirection (Present ''ar'')"
    by auto
  with run show ?thesis
    by (simp add: getTextDirection_def RTL_LANGUAGES_def)
qed

section \<open>Properties of the usage counters\<close>

text \<open>
  Claim C8. For an action that is none of the case labels of the \<open>switch\<close>, and every
  property bag and increment function, \<open>getCounterUpdates\<close> returns the empty mapping. The
  function is a value of its three arguments: it reads and writes nothing else.
\<close>

theorem getCounterUpdates_unknown_action:
  assumes "action \<notin> set handled_actions"
  shows "getCounterUpdates action properties increment = Map.empty"
  using assms by (simp add: getCounterUpdates_def handled_actions_def)

text \<open>
  Two actions that \<open>ALL_ACTIONS\<close> lists and the \<open>switch\<close> does not handle:
  \<open>mcp_context_generate\<close> and \<open>billing_page_viewed\<close>.
\<close>

theorem getCounterUpdates_unknown_action_witness:
  "getCounterUpdates ''mcp_context_generate'' (Present [''scope'' \<mapsto> JStr ''org'']) mockIncrement
     = Map.empty
   \<and> getCounterUpdates ''billing_page_viewed'' Null mockIncrement = Map.empty"
  using getCounterUpdates_unknown_action
          [of "''mcp_context_generate''" "Present [''scope'' \<mapsto> JStr ''org'']" mockIncrement]
    getCounterUpdates_unknown_action [of "''billing_page_viewed''" Null mockIncrement]
  by (simp add: handled_actions_def)

text \<open>
  The session counters. When the properties are typed as \<open>SessionEventProperties\<close>
  declares them and name a capture method, an output purpose or a legacy session type,
  \<open>sessions_started\<close> is incremented by one and each of the two counter families sums to
  one.
\<close>

lemma getCounterUpdates_session_typed:
  assumes "property properties ''recording_source'' \<in> {JUndefined, JStr ''screen'', JStr ''camera''}"
    and "property properties ''output_type'' \<in> {JUndefined, JStr ''workflow'', JStr ''teach_ai''}"
    and "property properties ''session_type'' \<in> {JStr ''screen'', JStr ''camera'', JStr ''teach_ai''}
           \<or> property properties ''recording_source'' \<noteq> JUndefined
           \<or> property properties ''output_type'' \<noteq> JUndefined"
  shows "increment_of (getCounterUpdates ''session'' properties mockIncrement) ''sessions_started'' = 1
       \<and> increment_of (getCounterUpdates ''session'' properties mockIncrement) ''sessions_screen''
           + increment_of (getCounterUpdates ''session'' properties mockIncrement) ''sessions_camera'' = 1
       \<and> increment_of (getCounterUpdates ''session'' properties mockIncrement) ''sessions_workflow''
           + increment_of (getCounterUpdates ''session'' properties mockIncrement) ''sessions_teach_ai'' = 1"
  using assms
  by (auto simp: getCounterUpdates_def Let_def increment_of_def mockIncrement_def)

text \<open>
  Claim C1 says that the two families sum to \<open>sessions_started\<close> for every property bag,
  as the comment above \<open>getCounterUpdates\<close> does. For a session event with an empty, null
  or undefined property bag the function returns the increment of \<open>sessions_started\<close>
  alone: the total is one and both families sum to zero.
\<close>

theorem getCounterUpdates_session_without_dimensions:
  "getCounterUpdates ''session'' (Present Map.empty) mockIncrement
     = [''sessions_started'' \<mapsto> Increment (Fin 1)]
   \<and> getCounterUpdates ''session'' Null mockIncrement = [''sessions_started'' \<mapsto> Increment (Fin 1)]
   \<and> getCounterUpdates ''session'' Undefined mockIncrement
     = [''sessions_started'' \<mapsto> Increment (Fin 1)]
   \<and> increment_of (getCounterUpdates ''session'' (Present Map.empty) mockIncrement)
       ''sessions_started'' = 1
   \<and> increment_of (getCounterUpdates ''session'' (Present Map.empty) mockIncrement)
       ''sessions_screen''
     + increment_of (getCounterUpdates ''session'' (Present Map.empty) mockIncrement)
       ''sessions_camera'' = 0
   \<and> increment_of (getCounterUpdates ''session'' (Present Map.empty) mockIncrement)
       ''sessions_workflow''
     + increment_of (getCounterUpdates ''session'' (Present Map.empty) mockIncrement)
       ''sessions_teach_ai'' = 0"
  by (simp add: getCounterUpdates_def property_def opt_member_def mockIncrement_def increment_of_def)

end
